theory Spec2Isabelle
  imports Main
begin

section \<open>The provider authorizer HTTP middleware\<close>

text \<open>
  A shallow embedding of
  \<^verbatim>\<open>internal/http/interceptors/providerauthorizer/providerauthorizer.go\<close>.
  The handler talks to collaborators that live outside the file: the path router, the
  gateway client pool, the gateway client, the authorizer driver, the logger, the response
  writer and the next handler of the chain. Pure collaborators are functions, taken as
  parameters; every call the handler makes on a collaborator is also recorded, in order,
  in a list of calls, so that "this call never happens" is a statement about that list.
\<close>

subsection \<open>Data\<close>

text \<open>A Go \<^verbatim>\<open>error\<close> value that is not nil; it carries its message.\<close>

datatype error = Error string

text \<open>The fields of \<^verbatim>\<open>userpb.User\<close> that the handler reads.\<close>

record user =
  Username :: string
  Mail :: string

text \<open>
  The parts of \<^verbatim>\<open>*http.Request\<close> that the handler reads: \<^verbatim>\<open>r.URL.Path\<close>, the result of
  \<^verbatim>\<open>r.BasicAuth()\<close> (\<open>None\<close> when its \<^verbatim>\<open>ok\<close> is false, else user name and password) and
  \<^verbatim>\<open>r.Context()\<close>.
\<close>

record 'ctx request =
  URL_Path :: string
  BasicAuth :: "(string \<times> string) option"
  Context :: 'ctx

text \<open>
  A Go \<^verbatim>\<open>map[string]interface{}\<close>: \<open>None\<close> is the nil map, \<open>'v\<close> stands for the values
  of type \<^verbatim>\<open>interface{}\<close>.
\<close>

type_synonym 'v settings = "(string \<rightharpoonup> 'v) option"

text \<open>
  Indexing a Go map of settings bags: a missing key gives the zero value, the nil map.
\<close>

definition index_settings :: "(string \<rightharpoonup> 'v settings) \<Rightarrow> string \<Rightarrow> 'v settings" where
  "index_settings ds k = (case ds k of None \<Rightarrow> None | Some b \<Rightarrow> b)"

record 'v config =
  Driver :: string
  Drivers :: "string \<rightharpoonup> 'v settings"
  OCMPrefix :: string
  GatewaySvc :: string

text \<open>
  The interface \<^verbatim>\<open>provider.Authorizer\<close>: \<^verbatim>\<open>IsProviderAllowed(ctx, domain)\<close> returns an
  error (\<open>Some\<close>) or nil (\<open>None\<close>).
\<close>

record 'ctx authorizer =
  IsProviderAllowed :: "'ctx \<Rightarrow> string \<Rightarrow> error option"

text \<open>
  The gateway client: \<^verbatim>\<open>FindUsers(ctx, &FindUsersRequest{Filter: f})\<close> returns an error or
  a response, of which the handler reads \<^verbatim>\<open>GetUsers()\<close> only.
\<close>

record 'ctx gateway_client =
  FindUsers :: "'ctx \<Rightarrow> string \<Rightarrow> error + user list"

text \<open>
  The functions of other packages that the file calls. None of them is in the file, so
  each is a parameter: \<^verbatim>\<open>mapstructure.Decode\<close> into a fresh \<^verbatim>\<open>config\<close>,
  \<^verbatim>\<open>sharedconf.GetGatewaySVC\<close>, the table \<^verbatim>\<open>registry.NewFuncs\<close>, \<^verbatim>\<open>router.ShiftPath\<close>,
  \<^verbatim>\<open>pool.GetGatewayServiceClient\<close> and the method \<^verbatim>\<open>WriteHeader\<close> of the response writer
  (of type \<open>'w\<close>).
\<close>

record ('v, 'ctx, 'w) env =
  Decode :: "'v settings \<Rightarrow> error + 'v config"
  GetGatewaySVC :: "string \<Rightarrow> string"
  NewFuncs :: "string \<rightharpoonup> ('v settings \<Rightarrow> error + 'ctx authorizer)"
  ShiftPath :: "string \<Rightarrow> string \<times> string"
  GetGatewayServiceClient :: "string \<Rightarrow> error + 'ctx gateway_client"
  WriteHeader :: "nat \<Rightarrow> 'w \<Rightarrow> 'w"

text \<open>The calls a request handler makes on its collaborators.\<close>

datatype 'ctx call =
    Log_Info string
  | Log_Error "error option" string
  | Call_GetGatewayServiceClient string
  | Call_FindUsers 'ctx string
  | Call_IsProviderAllowed 'ctx string
  | Call_WriteHeader nat
  | Call_ServeHTTP "'ctx request"

text \<open>
  What one run of the handler leaves behind: the response writer, the calls made, in
  order, and whether the run ended in a runtime panic instead of returning.
\<close>

record ('ctx, 'w) served =
  writer :: 'w
  calls :: "'ctx call list"
  panic :: "string option"

fun is_log :: "'ctx call \<Rightarrow> bool" where
  "is_log (Log_Info m) = True"
| "is_log (Log_Error e m) = True"
| "is_log c = False"

fun is_ServeHTTP :: "'ctx call \<Rightarrow> bool" where
  "is_ServeHTTP (Call_ServeHTTP r) = True"
| "is_ServeHTTP c = False"

fun is_identity_call :: "'ctx call \<Rightarrow> bool" where
  "is_identity_call (Call_GetGatewayServiceClient a) = True"
| "is_identity_call (Call_FindUsers ctx f) = True"
| "is_identity_call c = False"

fun is_authorizer_call :: "'ctx call \<Rightarrow> bool" where
  "is_authorizer_call (Call_IsProviderAllowed ctx d) = True"
| "is_authorizer_call c = False"

text \<open>The calls other than log lines.\<close>

definition effects :: "('ctx, 'w) served \<Rightarrow> 'ctx call list" where
  "effects s = filter (\<lambda>c. \<not> is_log c) (calls s)"

definition downstream_invoked :: "('ctx, 'w) served \<Rightarrow> bool" where
  "downstream_invoked s = list_ex is_ServeHTTP (calls s)"

subsection \<open>Library functions\<close>

text \<open>
  \<^verbatim>\<open>strings.Split(s, sep)\<close> of the Go library for a separator of one byte: the pieces of
  \<open>s\<close> between the occurrences of the separator, in order. \<open>acc\<close> holds the current
  piece, reversed.
\<close>

fun split_acc :: "char \<Rightarrow> string \<Rightarrow> string \<Rightarrow> string list" where
  "split_acc sep acc [] = [rev acc]"
| "split_acc sep acc (c # cs) =
     (if c = sep then rev acc # split_acc sep [] cs else split_acc sep (c # acc) cs)"

definition Split :: "string \<Rightarrow> char \<Rightarrow> string list" where
  "Split s sep = split_acc sep [] s"

subsection \<open>The code\<close>

definition defaultPriority :: nat where
  "defaultPriority = 200"

text \<open>\<^verbatim>\<open>getDriver\<close>, lines 52 to 58.\<close>

definition getDriver :: "('v, 'ctx, 'w) env \<Rightarrow> 'v config \<Rightarrow> error + 'ctx authorizer" where
  "getDriver env c =
     (case NewFuncs env (Driver c) of
        Some f \<Rightarrow> f (index_settings (Drivers c) (Driver c))
      | None \<Rightarrow> Inl (Error (''driver '' @ Driver c @ '' not found for provider authorizer'')))"

text \<open>
  The loop of lines 112 to 118: the first user of the list whose \<^verbatim>\<open>Username\<close> is the
  given one; \<open>None\<close> is the nil pointer that \<^verbatim>\<open>userAuth\<close> keeps when no user matches.
\<close>

fun findUserAuth :: "string \<Rightarrow> user list \<Rightarrow> user option" where
  "findUserAuth username [] = None"
| "findUserAuth username (u # us) =
     (if Username u = username then Some u else findUserAuth username us)"

text \<open>
  The request handler, lines 79 to 134, the closure's captured variables \<^verbatim>\<open>conf\<close>,
  \<^verbatim>\<open>authorizer\<close> and \<^verbatim>\<open>h\<close> as arguments. \<^verbatim>\<open>userAuth.Mail\<close> on line 119 dereferences
  \<^verbatim>\<open>userAuth\<close>: when it is nil the handler panics there. The \<^verbatim>\<open>err\<close> logged on line 91 is
  the one of line 73, nil once the handler exists; the one logged on line 121 is that of
  line 103, nil there.
\<close>

definition handler ::
  "('v, 'ctx, 'w) env \<Rightarrow> 'v config \<Rightarrow> 'ctx authorizer \<Rightarrow> ('w \<Rightarrow> 'ctx request \<Rightarrow> 'w) \<Rightarrow>
   'w \<Rightarrow> 'ctx request \<Rightarrow> ('ctx, 'w) served" where
  "handler env conf authorizer h w r =
    (let ctx = Context r in
     if fst (ShiftPath env (URL_Path r)) \<noteq> OCMPrefix conf then
       \<lparr>writer = h w r,
        calls = [Log_Info (''skipping provider authorizer check for: '' @ URL_Path r),
                 Call_ServeHTTP r],
        panic = None\<rparr>
     else
       (case BasicAuth r of
          None \<Rightarrow>
            \<lparr>writer = WriteHeader env 401 w,
             calls = [Log_Error None ''no basic auth provided'', Call_WriteHeader 401],
             panic = None\<rparr>
        | Some (username, password) \<Rightarrow>
            (case GetGatewayServiceClient env (GatewaySvc conf) of
               Inl err \<Rightarrow>
                 \<lparr>writer = WriteHeader env 500 w,
                  calls = [Call_GetGatewayServiceClient (GatewaySvc conf),
                           Log_Error (Some err) ''error getting the grpc client'',
                           Call_WriteHeader 500],
                  panic = None\<rparr>
             | Inr gatewayClient \<Rightarrow>
                 (case FindUsers gatewayClient ctx username of
                    Inl err \<Rightarrow>
                      \<lparr>writer = WriteHeader env 500 w,
                       calls = [Call_GetGatewayServiceClient (GatewaySvc conf),
                                Call_FindUsers ctx username,
                                Log_Error (Some err) ''error searching for the user'',
                                Call_WriteHeader 500],
                       panic = None\<rparr>
                  | Inr users \<Rightarrow>
                      (case findUserAuth username users of
                         None \<Rightarrow>
                           \<lparr>writer = w,
                            calls = [Call_GetGatewayServiceClient (GatewaySvc conf),
                                     Call_FindUsers ctx username],
                            panic = Some ''runtime error: invalid memory address or nil pointer dereference''\<rparr>
                       | Some userAuth \<Rightarrow>
                           (let domainSplit = Split (Mail userAuth) CHR ''@'' in
                            if length domainSplit \<noteq> 2 then
                              \<lparr>writer = WriteHeader env 400 w,
                               calls = [Call_GetGatewayServiceClient (GatewaySvc conf),
                                        Call_FindUsers ctx username,
                                        Log_Error None ''user mail must contain domain'',
                                        Call_WriteHeader 400],
                               panic = None\<rparr>
                            else
                              (case IsProviderAllowed authorizer ctx (domainSplit ! 1) of
                                 Some err \<Rightarrow>
                                   \<lparr>writer = WriteHeader env 401 w,
                                    calls = [Call_GetGatewayServiceClient (GatewaySvc conf),
                                             Call_FindUsers ctx username,
                                             Call_IsProviderAllowed ctx (domainSplit ! 1),
                                             Log_Error (Some err) ''provider not registered in OCM'',
                                             Call_WriteHeader 401],
                                    panic = None\<rparr>
                               | None \<Rightarrow>
                                   \<lparr>writer = h w r,
                                    calls = [Call_GetGatewayServiceClient (GatewaySvc conf),
                                             Call_FindUsers ctx username,
                                             Call_IsProviderAllowed ctx (domainSplit ! 1),
                                             Call_ServeHTTP r],
                                    panic = None\<rparr>)))))))"

text \<open>
  \<^verbatim>\<open>New\<close>, lines 61 to 139. The middleware it returns is the closure of line 78, here the
  function \<open>handler env conf authorizer\<close> of the next handler \<open>h\<close>. Go's
  \<^verbatim>\<open>(nil, 0, err)\<close> is \<open>Inl err\<close>.
\<close>

definition New ::
  "('v, 'ctx, 'w) env \<Rightarrow> 'v settings \<Rightarrow>
   error + ((('w \<Rightarrow> 'ctx request \<Rightarrow> 'w) \<Rightarrow> 'w \<Rightarrow> 'ctx request \<Rightarrow> ('ctx, 'w) served) \<times> nat)" where
  "New env m =
    (case Decode env m of
       Inl err \<Rightarrow> Inl err
     | Inr decoded \<Rightarrow>
         (let conf1 = decoded\<lparr>GatewaySvc := GetGatewaySVC env (GatewaySvc decoded)\<rparr>;
              conf = (if OCMPrefix conf1 = '''' then conf1\<lparr>OCMPrefix := ''ocm''\<rparr> else conf1)
          in case getDriver env conf of
               Inl err \<Rightarrow> Inl err
             | Inr authorizer \<Rightarrow> Inr (handler env conf authorizer, defaultPriority)))"

subsection \<open>The closure and its captured variables\<close>

text \<open>
  The function literal of line 79 is a closure: it refers to the variables \<^verbatim>\<open>conf\<close>,
  \<^verbatim>\<open>authorizer\<close> and \<^verbatim>\<open>err\<close> of \<^verbatim>\<open>New\<close> and to the parameter \<^verbatim>\<open>h\<close> of the enclosing
  literal of line 78. Go captures variables by reference, so they are the only state that
  one request could leave to the next. Here they are a record that each run of the body
  receives and hands on.
\<close>

record ('v, 'ctx, 'w) captured =
  cap_conf :: "'v config"
  cap_authorizer :: "'ctx authorizer"
  cap_err :: "error option"
  cap_next :: "'w \<Rightarrow> 'ctx request \<Rightarrow> 'w"

text \<open>
  The body of lines 79 to 134 over the captured variables. Line 91 reads the captured
  \<^verbatim>\<open>err\<close>. \<^verbatim>\<open>gatewayClient, err := ...\<close> on line 96 declares a new \<^verbatim>\<open>err\<close> in the scope of
  the body; the \<^verbatim>\<open>:=\<close> of line 103 and the \<^verbatim>\<open>=\<close> of line 126 assign that local one. No
  statement of the body assigns \<^verbatim>\<open>conf\<close>, a field of \<^verbatim>\<open>conf\<close>, \<^verbatim>\<open>authorizer\<close>, \<^verbatim>\<open>h\<close> or the
  captured \<^verbatim>\<open>err\<close>. The second component of the result is the captured variables at the
  end of the run, also when the run ends in the panic of line 119.
\<close>

definition handler_closure ::
  "('v, 'ctx, 'w) env \<Rightarrow> ('v, 'ctx, 'w) captured \<Rightarrow> 'w \<Rightarrow> 'ctx request \<Rightarrow>
   ('ctx, 'w) served \<times> ('v, 'ctx, 'w) captured" where
  "handler_closure env cap w r =
    (let ctx = Context r in
     if fst (ShiftPath env (URL_Path r)) \<noteq> OCMPrefix (cap_conf cap) then
       (\<lparr>writer = cap_next cap w r,
         calls = [Log_Info (''skipping provider authorizer check for: '' @ URL_Path r),
                  Call_ServeHTTP r],
         panic = None\<rparr>, cap)
     else
       (case BasicAuth r of
          None \<Rightarrow>
            (\<lparr>writer = WriteHeader env 401 w,
              calls = [Log_Error (cap_err cap) ''no basic auth provided'', Call_WriteHeader 401],
              panic = None\<rparr>, cap)
        | Some (username, password) \<Rightarrow>
            (case GetGatewayServiceClient env (GatewaySvc (cap_conf cap)) of
               Inl err \<Rightarrow>
                 (\<lparr>writer = WriteHeader env 500 w,
                   calls = [Call_GetGatewayServiceClient (GatewaySvc (cap_conf cap)),
                            Log_Error (Some err) ''error getting the grpc client'',
                            Call_WriteHeader 500],
                   panic = None\<rparr>, cap)
             | Inr gatewayClient \<Rightarrow>
                 (case FindUsers gatewayClient ctx username of
                    Inl err \<Rightarrow>
                      (\<lparr>writer = WriteHeader env 500 w,
                        calls = [Call_GetGatewayServiceClient (GatewaySvc (cap_conf cap)),
                                 Call_FindUsers ctx username,
                                 Log_Error (Some err) ''error searching for the user'',
                                 Call_WriteHeader 500],
                        panic = None\<rparr>, cap)
                  | Inr users \<Rightarrow>
                      (case findUserAuth username users of
                         None \<Rightarrow>
                           (\<lparr>writer = w,
                             calls = [Call_GetGatewayServiceClient (GatewaySvc (cap_conf cap)),
                                      Call_FindUsers ctx username],
                             panic = Some ''runtime error: invalid memory address or nil pointer dereference''\<rparr>,
                            cap)
                       | Some userAuth \<Rightarrow>
                           (let domainSplit = Split (Mail userAuth) CHR ''@'' in
                            if length domainSplit \<noteq> 2 then
                              (\<lparr>writer = WriteHeader env 400 w,
                                calls = [Call_GetGatewayServiceClient (GatewaySvc (cap_conf cap)),
                                         Call_FindUsers ctx username,
                                         Log_Error None ''user mail must contain domain'',
                                         Call_WriteHeader 400],
                                panic = None\<rparr>, cap)
                            else
                              (case IsProviderAllowed (cap_authorizer cap) ctx (domainSplit ! 1) of
                                 Some err \<Rightarrow>
                                   (\<lparr>writer = WriteHeader env 401 w,
                                     calls = [Call_GetGatewayServiceClient (GatewaySvc (cap_conf cap)),
                                              Call_FindUsers ctx username,
                                              Call_IsProviderAllowed ctx (domainSplit ! 1),
                                              Log_Error (Some err) ''provider not registered in OCM'',
                                              Call_WriteHeader 401],
                                     panic = None\<rparr>, cap)
                               | None \<Rightarrow>
                                   (\<lparr>writer = cap_next cap w r,
                                     calls = [Call_GetGatewayServiceClient (GatewaySvc (cap_conf cap)),
                                              Call_FindUsers ctx username,
                                              Call_IsProviderAllowed ctx (domainSplit ! 1),
                                              Call_ServeHTTP r],
                                     panic = None\<rparr>, cap))))))))"

text \<open>
  The captured variables after a sequence of requests, each with its own response writer,
  served one after the other by the same closure.
\<close>

fun after_requests ::
  "('v, 'ctx, 'w) env \<Rightarrow> ('v, 'ctx, 'w) captured \<Rightarrow> ('w \<times> 'ctx request) list \<Rightarrow>
   ('v, 'ctx, 'w) captured" where
  "after_requests env cap [] = cap"
| "after_requests env cap ((w, r) # rest) =
     after_requests env (snd (handler_closure env cap w r)) rest"

subsection \<open>A concrete deployment\<close>

text \<open>
  A small deployment on which the properties below are instantiated: four users in the
  directory, a directory that fails for the filter \<open>erin\<close>, two registered drivers, the
  gateway reachable at the address \<open>gw\<close> only, a response writer that is the list of the
  status codes written to it, and a next handler that writes 200. Its \<open>ShiftPath\<close> takes
  the text between the leading slash and the next one as the head. Its \<open>Decode\<close> reads
  the key \<open>driver\<close> of the raw configuration. The driver \<open>demo\<close> has a settings bag,
  from which its factory reads the one domain it allows; the driver \<open>open\<close> has none,
  and its factory wants none.
\<close>

definition demo_users :: "user list" where
  "demo_users =
     [\<lparr>Username = ''alice'', Mail = ''alice@example.org''\<rparr>,
      \<lparr>Username = ''bob'', Mail = ''bob@badcorp.com''\<rparr>,
      \<lparr>Username = ''carol'', Mail = ''nodomain''\<rparr>,
      \<lparr>Username = ''dave'', Mail = ''@example.org''\<rparr>]"

definition demo_client :: "unit gateway_client" where
  "demo_client =
     \<lparr>FindUsers = (\<lambda>ctx f. if f = ''erin'' then Inl (Error ''unavailable'') else Inr demo_users)\<rparr>"

definition other_client :: "unit gateway_client" where
  "other_client =
     \<lparr>FindUsers = (\<lambda>ctx f. if f = ''alice'' then Inr demo_users else Inr [])\<rparr>"

definition demo_authorizer :: "unit authorizer" where
  "demo_authorizer =
     \<lparr>IsProviderAllowed =
        (\<lambda>ctx d. if d = ''example.org'' then None else Some (Error ''provider not allowed''))\<rparr>"

definition open_authorizer :: "unit authorizer" where
  "open_authorizer = \<lparr>IsProviderAllowed = (\<lambda>ctx d. None)\<rparr>"

definition demo_drivers :: "string \<rightharpoonup> string settings" where
  "demo_drivers = [''demo'' \<mapsto> Some [''domain'' \<mapsto> ''example.org'']]"

definition allow_only :: "string \<Rightarrow> unit authorizer" where
  "allow_only d =
     \<lparr>IsProviderAllowed =
        (\<lambda>ctx x. if x = d then None else Some (Error ''provider not allowed''))\<rparr>"

definition list_factory :: "string settings \<Rightarrow> error + unit authorizer" where
  "list_factory bag =
     (case bag of
        None \<Rightarrow> Inl (Error ''no settings'')
      | Some s \<Rightarrow> (case s ''domain'' of
                     None \<Rightarrow> Inl (Error ''no domain'')
                   | Some d \<Rightarrow> Inr (allow_only d)))"

definition open_factory :: "string settings \<Rightarrow> error + unit authorizer" where
  "open_factory bag =
     (case bag of
        None \<Rightarrow> Inr open_authorizer
      | Some s \<Rightarrow> Inl (Error ''unexpected settings''))"

definition demo_decoded :: "string \<Rightarrow> string config" where
  "demo_decoded d = \<lparr>Driver = d, Drivers = demo_drivers, OCMPrefix = [], GatewaySvc = []\<rparr>"

definition demo_built :: "string \<Rightarrow> string config" where
  "demo_built d = \<lparr>Driver = d, Drivers = demo_drivers, OCMPrefix = ''ocm'', GatewaySvc = ''gw''\<rparr>"

definition demo_conf :: "string \<Rightarrow> string config" where
  "demo_conf gw = \<lparr>Driver = ''demo'', Drivers = Map.empty, OCMPrefix = ''ocm'', GatewaySvc = gw\<rparr>"

definition demo_env :: "(string, unit, nat list) env" where
  "demo_env =
     \<lparr>Decode =
        (\<lambda>m. case m of
                None \<Rightarrow> Inl (Error ''no configuration'')
              | Some b \<Rightarrow> (case b ''driver'' of
                             None \<Rightarrow> Inr (demo_decoded [])
                           | Some d \<Rightarrow> Inr (demo_decoded d))),
      GetGatewaySVC = (\<lambda>a. if a = [] then ''gw'' else a),
      NewFuncs = [''demo'' \<mapsto> list_factory, ''open'' \<mapsto> open_factory],
      ShiftPath =
        (\<lambda>p. (takeWhile (\<lambda>c. c \<noteq> CHR ''/'') (tl p), dropWhile (\<lambda>c. c \<noteq> CHR ''/'') (tl p))),
      GetGatewayServiceClient =
        (\<lambda>a. if a = ''gw'' then Inr demo_client else Inl (Error ''no such service'')),
      WriteHeader = (\<lambda>code w. w @ [code])\<rparr>"

definition demo_next :: "nat list \<Rightarrow> unit request \<Rightarrow> nat list" where
  "demo_next w r = w @ [200]"

definition demo_request :: "string \<Rightarrow> (string \<times> string) option \<Rightarrow> unit request" where
  "demo_request p auth = \<lparr>URL_Path = p, BasicAuth = auth, Context = ()\<rparr>"

definition demo_captured :: "(string, unit, nat list) captured" where
  "demo_captured =
     \<lparr>cap_conf = demo_conf ''gw'', cap_authorizer = demo_authorizer, cap_err = None,
      cap_next = demo_next\<rparr>"

section \<open>Properties\<close>

subsection \<open>Library functions and the selection loop\<close>

lemmas demo_defs = demo_users_def demo_client_def other_client_def demo_authorizer_def
  open_authorizer_def demo_drivers_def allow_only_def list_factory_def open_factory_def
  demo_built_def demo_decoded_def demo_conf_def demo_env_def demo_next_def demo_request_def

lemma length_split_acc: "length (split_acc sep acc s) = Suc (count_list s sep)"
  by (induction s arbitrary: acc) simp_all

text \<open>The number of pieces is one more than the number of separators.\<close>

lemma length_Split: "length (Split s sep) = Suc (count_list s sep)"
  by (simp add: Split_def length_split_acc)

lemma split_acc_no_sep: "sep \<notin> set s \<Longrightarrow> split_acc sep acc s = [rev acc @ s]"
  by (induction s arbitrary: acc) auto

text \<open>An empty local part before the only separator: two pieces, the second the domain.\<close>

lemma Split_empty_local_part: "sep \<notin> set d \<Longrightarrow> Split (sep # d) sep = [[], d]"
  by (simp add: Split_def split_acc_no_sep)


lemma findUserAuth_find: "findUserAuth username us = find (\<lambda>u. Username u = username) us"
  by (induction us) simp_all

lemma findUserAuth_None_iff:
  "findUserAuth username us = None \<longleftrightarrow> (\<forall>u \<in> set us. Username u \<noteq> username)"
  by (induction us) simp_all

lemma findUserAuth_Some:
  "findUserAuth username us = Some x \<Longrightarrow> x \<in> set us \<and> Username x = username"
  by (induction us) (auto split: if_splits)


text \<open>
  When the lookup succeeds and no user has the requested name, the handler dereferences
  the nil \<^verbatim>\<open>userAuth\<close> and panics: nothing is written to the response.
\<close>

lemma no_match_panics:
  assumes "fst (ShiftPath env (URL_Path r)) = OCMPrefix conf"
    and "BasicAuth r = Some (username, password)"
    and "GetGatewayServiceClient env (GatewaySvc conf) = Inr gatewayClient"
    and "FindUsers gatewayClient (Context r) username = Inr users"
    and "findUserAuth username users = None"
  shows "handler env conf a h w r =
           \<lparr>writer = w,
            calls = [Call_GetGatewayServiceClient (GatewaySvc conf),
                     Call_FindUsers (Context r) username],
            panic = Some ''runtime error: invalid memory address or nil pointer dereference''\<rparr>"
  using assms by (simp add: handler_def Let_def)

subsection \<open>Requests outside the prefix\<close>

text \<open>
  Claim C3. A request whose first path segment (the head that \<^verbatim>\<open>ShiftPath\<close> returns) is
  not the configured prefix goes to the next handler as it is: the response writer is the
  one the next handler leaves, the only call besides the log line is \<^verbatim>\<open>h.ServeHTTP(w, r)\<close>
  with the request itself, and neither the gateway nor the authorizer is called.
\<close>

theorem skip_outside_prefix:
  assumes "fst (ShiftPath env (URL_Path r)) \<noteq> OCMPrefix conf"
  shows "writer (handler env conf a h w r) = h w r \<and>
         effects (handler env conf a h w r) = [Call_ServeHTTP r] \<and>
         \<not> list_ex is_identity_call (calls (handler env conf a h w r)) \<and>
         \<not> list_ex is_authorizer_call (calls (handler env conf a h w r)) \<and>
         panic (handler env conf a h w r) = None"
  using assms by (simp add: handler_def effects_def Let_def)

theorem skip_outside_prefix_witness:
  "fst (ShiftPath demo_env (URL_Path (demo_request ''/status'' None))) = ''status'' \<and>
   OCMPrefix (demo_conf ''gw'') = ''ocm'' \<and>
   writer (handler demo_env (demo_conf ''gw'') demo_authorizer demo_next []
             (demo_request ''/status'' None)) = [200] \<and>
   effects (handler demo_env (demo_conf ''gw'') demo_authorizer demo_next []
             (demo_request ''/status'' None)) = [Call_ServeHTTP (demo_request ''/status'' None)]"
proof -
  have p: "fst (ShiftPath demo_env (URL_Path (demo_request ''/status'' None)))
             \<noteq> OCMPrefix (demo_conf ''gw'')"
    by (simp add: demo_defs)
  from skip_outside_prefix [OF p, of demo_authorizer demo_next "[]"]
  show ?thesis by (simp add: demo_defs)
qed

subsection \<open>Requests under the prefix\<close>

text \<open>
  Claim C4. A request under the prefix without Basic Auth credentials gets status 401:
  the handler's only call besides the log line is \<^verbatim>\<open>w.WriteHeader(401)\<close>, and the next
  handler is not invoked.
\<close>

theorem no_basic_auth_unauthorized:
  assumes "fst (ShiftPath env (URL_Path r)) = OCMPrefix conf"
    and "BasicAuth r = None"
  shows "writer (handler env conf a h w r) = WriteHeader env 401 w \<and>
         effects (handler env conf a h w r) = [Call_WriteHeader 401] \<and>
         \<not> downstream_invoked (handler env conf a h w r) \<and>
         panic (handler env conf a h w r) = None"
  using assms by (simp add: handler_def effects_def downstream_invoked_def Let_def)

theorem no_basic_auth_unauthorized_witness:
  "fst (ShiftPath demo_env (URL_Path (demo_request ''/ocm/shares'' None))) = ''ocm'' \<and>
   BasicAuth (demo_request ''/ocm/shares'' None) = None \<and>
   writer (handler demo_env (demo_conf ''gw'') demo_authorizer demo_next []
             (demo_request ''/ocm/shares'' None)) = [401] \<and>
   \<not> downstream_invoked (handler demo_env (demo_conf ''gw'') demo_authorizer demo_next []
             (demo_request ''/ocm/shares'' None))"
proof -
  have p: "fst (ShiftPath demo_env (URL_Path (demo_request ''/ocm/shares'' None)))
             = OCMPrefix (demo_conf ''gw'')"
    by (simp add: demo_defs)
  have b: "BasicAuth (demo_request ''/ocm/shares'' None) = None"
    by (simp add: demo_defs)
  from no_basic_auth_unauthorized [OF p b, of demo_authorizer demo_next "[]"]
  show ?thesis by (simp add: demo_defs)
qed

text \<open>
  Claim C10. Under the prefix and with credentials, the first thing the handler does is
  to ask the pool for the gateway client, on every request; when the pool returns an
  error, the handler writes status 500 and makes no other call: no lookup, no next
  handler.
\<close>

theorem gateway_client_error_internal:
  assumes "fst (ShiftPath env (URL_Path r)) = OCMPrefix conf"
    and "BasicAuth r = Some (username, password)"
  shows "take 1 (effects (handler env conf a h w r)) =
           [Call_GetGatewayServiceClient (GatewaySvc conf)] \<and>
         (\<forall>err. GetGatewayServiceClient env (GatewaySvc conf) = Inl err \<longrightarrow>
            writer (handler env conf a h w r) = WriteHeader env 500 w \<and>
            effects (handler env conf a h w r) =
              [Call_GetGatewayServiceClient (GatewaySvc conf), Call_WriteHeader 500] \<and>
            \<not> downstream_invoked (handler env conf a h w r) \<and>
            panic (handler env conf a h w r) = None)"
  using assms
  by (simp add: handler_def effects_def downstream_invoked_def Let_def
      split: sum.split option.split)

theorem gateway_client_error_internal_witness:
  "GetGatewayServiceClient demo_env (GatewaySvc (demo_conf ''elsewhere'')) =
     Inl (Error ''no such service'') \<and>
   writer (handler demo_env (demo_conf ''elsewhere'') demo_authorizer demo_next []
             (demo_request ''/ocm/shares'' (Some (''alice'', ''secret'')))) = [500] \<and>
   effects (handler demo_env (demo_conf ''elsewhere'') demo_authorizer demo_next []
             (demo_request ''/ocm/shares'' (Some (''alice'', ''secret'')))) =
     [Call_GetGatewayServiceClient ''elsewhere'', Call_WriteHeader 500] \<and>
   \<not> downstream_invoked (handler demo_env (demo_conf ''elsewhere'') demo_authorizer demo_next []
             (demo_request ''/ocm/shares'' (Some (''alice'', ''secret''))))"
proof -
  have p: "fst (ShiftPath demo_env (URL_Path (demo_request ''/ocm/shares'' (Some (''alice'', ''secret'')))))
             = OCMPrefix (demo_conf ''elsewhere'')"
    by (simp add: demo_defs)
  have b: "BasicAuth (demo_request ''/ocm/shares'' (Some (''alice'', ''secret'')))
             = Some (''alice'', ''secret'')"
    by (simp add: demo_defs)
  have g: "GetGatewayServiceClient demo_env (GatewaySvc (demo_conf ''elsewhere'')) =
             Inl (Error ''no such service'')"
    by (simp add: demo_defs)
  from gateway_client_error_internal [OF p b, of demo_authorizer demo_next "[]"] g
  show ?thesis by (simp add: demo_defs)
qed

text \<open>
  Claim C5. Under the prefix, with credentials and a gateway client, a \<^verbatim>\<open>FindUsers\<close>
  call that returns an error gets status 500, and the next handler is not invoked.
\<close>

theorem find_users_error_internal:
  assumes "fst (ShiftPath env (URL_Path r)) = OCMPrefix conf"
    and "BasicAuth r = Some (username, password)"
    and "GetGatewayServiceClient env (GatewaySvc conf) = Inr gatewayClient"
    and "FindUsers gatewayClient (Context r) username = Inl err"
  shows "writer (handler env conf a h w r) = WriteHeader env 500 w \<and>
         effects (handler env conf a h w r) =
           [Call_GetGatewayServiceClient (GatewaySvc conf), Call_FindUsers (Context r) username,
            Call_WriteHeader 500] \<and>
         \<not> downstream_invoked (handler env conf a h w r) \<and>
         panic (handler env conf a h w r) = None"
  using assms by (simp add: handler_def effects_def downstream_invoked_def Let_def)

theorem find_users_error_internal_witness:
  "GetGatewayServiceClient demo_env (GatewaySvc (demo_conf ''gw'')) = Inr demo_client \<and>
   FindUsers demo_client () ''erin'' = Inl (Error ''unavailable'') \<and>
   writer (handler demo_env (demo_conf ''gw'') demo_authorizer demo_next []
             (demo_request ''/ocm/shares'' (Some (''erin'', ''secret'')))) = [500] \<and>
   \<not> downstream_invoked (handler demo_env (demo_conf ''gw'') demo_authorizer demo_next []
             (demo_request ''/ocm/shares'' (Some (''erin'', ''secret''))))"
proof -
  have p: "fst (ShiftPath demo_env (URL_Path (demo_request ''/ocm/shares'' (Some (''erin'', ''secret'')))))
             = OCMPrefix (demo_conf ''gw'')"
    by (simp add: demo_defs)
  have b: "BasicAuth (demo_request ''/ocm/shares'' (Some (''erin'', ''secret'')))
             = Some (''erin'', ''secret'')"
    by (simp add: demo_defs)
  have g: "GetGatewayServiceClient demo_env (GatewaySvc (demo_conf ''gw'')) = Inr demo_client"
    by (simp add: demo_defs)
  have f: "FindUsers demo_client (Context (demo_request ''/ocm/shares'' (Some (''erin'', ''secret''))))
             ''erin'' = Inl (Error ''unavailable'')"
    by (simp add: demo_defs)
  from find_users_error_internal [OF p b g f, of demo_authorizer demo_next "[]"] g f
  show ?thesis by (simp add: demo_defs)
qed

subsection \<open>The selected user\<close>

text \<open>
  Claim C1. The claim asks for status 401 when the lookup succeeds and no candidate has
  the requested user name. The code has no such branch: \<^verbatim>\<open>userAuth\<close> stays nil and line
  119 dereferences it. On the deployment above, for the user name \<open>mallory\<close>, the lookup
  returns four candidates, none of them matches, and the handler panics after the two
  identity calls, having written no status at all.
\<close>

theorem no_exact_match_panics_at_mallory:
  "FindUsers demo_client () ''mallory'' = Inr demo_users \<and>
   findUserAuth ''mallory'' demo_users = None \<and>
   handler demo_env (demo_conf ''gw'') demo_authorizer demo_next []
       (demo_request ''/ocm/shares'' (Some (''mallory'', ''secret''))) =
     \<lparr>writer = [],
      calls = [Call_GetGatewayServiceClient ''gw'', Call_FindUsers () ''mallory''],
      panic = Some ''runtime error: invalid memory address or nil pointer dereference''\<rparr> \<and>
   writer (handler demo_env (demo_conf ''gw'') demo_authorizer demo_next []
       (demo_request ''/ocm/shares'' (Some (''mallory'', ''secret'')))) \<noteq> WriteHeader demo_env 401 []"
  by (simp add: handler_def demo_defs Let_def)

subsection \<open>Domain extraction\<close>

text \<open>
  The claim C2 as stated fails for an e-mail with an empty local part: the code never
  reads the local part. The e-mail \<open>@example.org\<close> of the user \<open>dave\<close> splits into two
  pieces, the first one empty, the second one the domain; the handler goes on to ask the
  authorizer about \<open>example.org\<close> and then invokes the next handler: the status is not
  400.
\<close>

theorem empty_local_part_not_rejected:
  "findUserAuth ''dave'' demo_users = Some \<lparr>Username = ''dave'', Mail = ''@example.org''\<rparr> \<and>
   Split ''@example.org'' CHR ''@'' = [[], ''example.org''] \<and>
   writer (handler demo_env (demo_conf ''gw'') demo_authorizer demo_next []
       (demo_request ''/ocm/shares'' (Some (''dave'', ''secret'')))) = [200] \<and>
   writer (handler demo_env (demo_conf ''gw'') demo_authorizer demo_next []
       (demo_request ''/ocm/shares'' (Some (''dave'', ''secret'')))) \<noteq> WriteHeader demo_env 400 [] \<and>
   effects (handler demo_env (demo_conf ''gw'') demo_authorizer demo_next []
       (demo_request ''/ocm/shares'' (Some (''dave'', ''secret'')))) =
     [Call_GetGatewayServiceClient ''gw'', Call_FindUsers () ''dave'',
      Call_IsProviderAllowed () ''example.org'',
      Call_ServeHTTP (demo_request ''/ocm/shares'' (Some (''dave'', ''secret'')))]"
  by (simp add: handler_def effects_def demo_defs Let_def Split_def)

text \<open>
  Claim C2, amended. For a request that reaches domain extraction (under the prefix, with
  credentials, a gateway client, a successful lookup and a user selected), when the split
  of the user's e-mail on \<open>@\<close> does not give exactly two pieces, which is when the e-mail
  does not hold exactly one \<open>@\<close>, the handler writes status 400 and calls neither the
  authorizer nor the next handler.
\<close>

theorem split_not_two_bad_request:
  assumes "fst (ShiftPath env (URL_Path r)) = OCMPrefix conf"
    and "BasicAuth r = Some (username, password)"
    and "GetGatewayServiceClient env (GatewaySvc conf) = Inr gatewayClient"
    and "FindUsers gatewayClient (Context r) username = Inr users"
    and "findUserAuth username users = Some userAuth"
    and "length (Split (Mail userAuth) CHR ''@'') \<noteq> 2"
  shows "count_list (Mail userAuth) CHR ''@'' \<noteq> 1 \<and>
         writer (handler env conf a h w r) = WriteHeader env 400 w \<and>
         effects (handler env conf a h w r) =
           [Call_GetGatewayServiceClient (GatewaySvc conf), Call_FindUsers (Context r) username,
            Call_WriteHeader 400] \<and>
         \<not> list_ex is_authorizer_call (calls (handler env conf a h w r)) \<and>
         \<not> downstream_invoked (handler env conf a h w r) \<and>
         panic (handler env conf a h w r) = None"
  using assms
  by (simp add: handler_def effects_def downstream_invoked_def length_Split Let_def)

theorem split_not_two_bad_request_witness:
  "findUserAuth ''carol'' demo_users = Some \<lparr>Username = ''carol'', Mail = ''nodomain''\<rparr> \<and>
   Split ''nodomain'' CHR ''@'' = [''nodomain''] \<and>
   writer (handler demo_env (demo_conf ''gw'') demo_authorizer demo_next []
             (demo_request ''/ocm/shares'' (Some (''carol'', ''secret'')))) = [400] \<and>
   \<not> list_ex is_authorizer_call
       (calls (handler demo_env (demo_conf ''gw'') demo_authorizer demo_next []
                 (demo_request ''/ocm/shares'' (Some (''carol'', ''secret''))))) \<and>
   \<not> downstream_invoked (handler demo_env (demo_conf ''gw'') demo_authorizer demo_next []
             (demo_request ''/ocm/shares'' (Some (''carol'', ''secret''))))"
proof -
  have p: "fst (ShiftPath demo_env (URL_Path (demo_request ''/ocm/shares'' (Some (''carol'', ''secret'')))))
             = OCMPrefix (demo_conf ''gw'')"
    by (simp add: demo_defs)
  have b: "BasicAuth (demo_request ''/ocm/shares'' (Some (''carol'', ''secret'')))
             = Some (''carol'', ''secret'')"
    by (simp add: demo_defs)
  have g: "GetGatewayServiceClient demo_env (GatewaySvc (demo_conf ''gw'')) = Inr demo_client"
    by (simp add: demo_defs)
  have f: "FindUsers demo_client (Context (demo_request ''/ocm/shares'' (Some (''carol'', ''secret''))))
             ''carol'' = Inr demo_users"
    by (simp add: demo_defs)
  have u: "findUserAuth ''carol'' demo_users = Some \<lparr>Username = ''carol'', Mail = ''nodomain''\<rparr>"
    by (simp add: demo_defs)
  have s: "Split ''nodomain'' CHR ''@'' = [''nodomain'']"
    by (simp add: Split_def)
  have l: "length (Split (Mail \<lparr>Username = ''carol'', Mail = ''nodomain''\<rparr>) CHR ''@'') \<noteq> 2"
    using s by simp
  from split_not_two_bad_request [OF p b g f u l, of demo_authorizer demo_next "[]"] u s
  show ?thesis by (simp add: demo_defs)
qed

subsection \<open>The authorizer's decision\<close>

text \<open>
  Claim C6. For a request that reaches the authorization decision (under the prefix, with
  credentials, a gateway client, a successful lookup, a user selected and an e-mail of
  exactly two pieces), when \<^verbatim>\<open>IsProviderAllowed\<close> returns an error, whatever it is, the
  handler writes status 401 and does not invoke the next handler.
\<close>

theorem authorizer_error_unauthorized:
  assumes "fst (ShiftPath env (URL_Path r)) = OCMPrefix conf"
    and "BasicAuth r = Some (username, password)"
    and "GetGatewayServiceClient env (GatewaySvc conf) = Inr gatewayClient"
    and "FindUsers gatewayClient (Context r) username = Inr users"
    and "findUserAuth username users = Some userAuth"
    and "length (Split (Mail userAuth) CHR ''@'') = 2"
    and "IsProviderAllowed a (Context r) (Split (Mail userAuth) CHR ''@'' ! 1) = Some err"
  shows "writer (handler env conf a h w r) = WriteHeader env 401 w \<and>
         effects (handler env conf a h w r) =
           [Call_GetGatewayServiceClient (GatewaySvc conf), Call_FindUsers (Context r) username,
            Call_IsProviderAllowed (Context r) (Split (Mail userAuth) CHR ''@'' ! 1),
            Call_WriteHeader 401] \<and>
         \<not> downstream_invoked (handler env conf a h w r) \<and>
         panic (handler env conf a h w r) = None"
  using assms by (simp add: handler_def effects_def downstream_invoked_def Let_def)

theorem authorizer_error_unauthorized_witness:
  "findUserAuth ''bob'' demo_users = Some \<lparr>Username = ''bob'', Mail = ''bob@badcorp.com''\<rparr> \<and>
   Split ''bob@badcorp.com'' CHR ''@'' = [''bob'', ''badcorp.com''] \<and>
   IsProviderAllowed demo_authorizer () ''badcorp.com'' = Some (Error ''provider not allowed'') \<and>
   writer (handler demo_env (demo_conf ''gw'') demo_authorizer demo_next []
             (demo_request ''/ocm/shares'' (Some (''bob'', ''secret'')))) = [401] \<and>
   \<not> downstream_invoked (handler demo_env (demo_conf ''gw'') demo_authorizer demo_next []
             (demo_request ''/ocm/shares'' (Some (''bob'', ''secret''))))"
proof -
  have p: "fst (ShiftPath demo_env (URL_Path (demo_request ''/ocm/shares'' (Some (''bob'', ''secret'')))))
             = OCMPrefix (demo_conf ''gw'')"
    by (simp add: demo_defs)
  have b: "BasicAuth (demo_request ''/ocm/shares'' (Some (''bob'', ''secret'')))
             = Some (''bob'', ''secret'')"
    by (simp add: demo_defs)
  have g: "GetGatewayServiceClient demo_env (GatewaySvc (demo_conf ''gw'')) = Inr demo_client"
    by (simp add: demo_defs)
  have f: "FindUsers demo_client (Context (demo_request ''/ocm/shares'' (Some (''bob'', ''secret''))))
             ''bob'' = Inr demo_users"
    by (simp add: demo_defs)
  have u: "findUserAuth ''bob'' demo_users = Some \<lparr>Username = ''bob'', Mail = ''bob@badcorp.com''\<rparr>"
    by (simp add: demo_defs)
  have s: "Split ''bob@badcorp.com'' CHR ''@'' = [''bob'', ''badcorp.com'']"
    by (simp add: Split_def)
  have l: "length (Split (Mail \<lparr>Username = ''bob'', Mail = ''bob@badcorp.com''\<rparr>) CHR ''@'') = 2"
    using s by simp
  have d: "IsProviderAllowed demo_authorizer
             (Context (demo_request ''/ocm/shares'' (Some (''bob'', ''secret''))))
             (Split (Mail \<lparr>Username = ''bob'', Mail = ''bob@badcorp.com''\<rparr>) CHR ''@'' ! 1)
           = Some (Error ''provider not allowed'')"
    using s by (simp add: demo_defs)
  have d': "IsProviderAllowed demo_authorizer () ''badcorp.com'' = Some (Error ''provider not allowed'')"
    by (simp add: demo_defs)
  from authorizer_error_unauthorized [OF p b g f u l d, of demo_next "[]"] u s d'
  show ?thesis by (simp add: demo_defs)
qed



subsection \<open>Determinism\<close>

text \<open>A run of the body leaves every captured variable as it found it.\<close>

lemma handler_closure_frame: "snd (handler_closure env cap w r) = cap"
  by (simp add: handler_closure_def Let_def split: option.split sum.split prod.split)

lemma after_requests_frame: "after_requests env cap reqs = cap"
  by (induction env cap reqs rule: after_requests.induct) (simp_all add: handler_closure_frame)

text \<open>
  With the captured \<^verbatim>\<open>err\<close> nil, as \<^verbatim>\<open>New\<close> leaves it, the body over the captured
  variables is the handler of the sections above.
\<close>

lemma handler_closure_handler:
  assumes "cap_err cap = None"
  shows "fst (handler_closure env cap w r) =
         handler env (cap_conf cap) (cap_authorizer cap) (cap_next cap) w r"
  using assms
  by (simp add: handler_closure_def handler_def Let_def split: option.split sum.split prod.split)

lemma handler_closure_same_responses:
  assumes "rel_sum (=)
             (\<lambda>c1 c2. \<forall>username password. BasicAuth r = Some (username, password) \<longrightarrow>
                FindUsers c1 (Context r) username = FindUsers c2 (Context r) username)
             (g1 (GatewaySvc (cap_conf cap))) (g2 (GatewaySvc (cap_conf cap)))"
    and "\<forall>domain. IsProviderAllowed a1 (Context r) domain = IsProviderAllowed a2 (Context r) domain"
  shows "fst (handler_closure (env\<lparr>GetGatewayServiceClient := g1\<rparr>)
                (cap\<lparr>cap_authorizer := a1\<rparr>) w r) =
         fst (handler_closure (env\<lparr>GetGatewayServiceClient := g2\<rparr>)
                (cap\<lparr>cap_authorizer := a2\<rparr>) w r)"
proof (cases "g1 (GatewaySvc (cap_conf cap))")
  case (Inl e1)
  with assms(1) have "g2 (GatewaySvc (cap_conf cap)) = Inl e1"
    by (cases "g2 (GatewaySvc (cap_conf cap))") simp_all
  with Inl show ?thesis
    by (simp add: handler_closure_def Let_def split: option.split)
next
  case (Inr c1)
  with assms(1) obtain c2 where c2: "g2 (GatewaySvc (cap_conf cap)) = Inr c2"
    and same: "\<And>username password. BasicAuth r = Some (username, password) \<Longrightarrow>
                FindUsers c1 (Context r) username = FindUsers c2 (Context r) username"
    by (cases "g2 (GatewaySvc (cap_conf cap))") simp_all
  show ?thesis
  proof (cases "BasicAuth r")
    case None
    then show ?thesis by (simp add: handler_closure_def Let_def)
  next
    case (Some up)
    obtain username password where up: "up = (username, password)" by (cases up)
    from same Some up have "FindUsers c1 (Context r) username = FindUsers c2 (Context r) username"
      by simp
    with Inr c2 Some up assms(2) show ?thesis
      by (simp add: handler_closure_def Let_def split: sum.split option.split)
  qed
qed

text \<open>
  Claim C9. Take two executions of the closure on the same request \<open>r\<close> and response
  writer \<open>w\<close>: one after the requests \<open>before1\<close>, against the pool \<open>g1\<close> and the authorizer
  \<open>a1\<close>, the other after the requests \<open>before2\<close>, against \<open>g2\<close> and \<open>a2\<close>, where the
  collaborators answer \<open>r\<close> alike (the pools both fail with the same error, or both give a
  client and the two clients answer the lookup for the request's user name alike; the
  authorizers answer alike for every domain). Whatever the two histories were, the captured
  variables are, after each history, what they were at the start: nothing accumulates. The
  two executions then give the same response writer, hence the same status code, the same
  calls and the same end; and when the captured \<^verbatim>\<open>err\<close> is nil, as \<^verbatim>\<open>New\<close> leaves it, what
  the first gives is what the handler of the sections above gives on \<open>r\<close> alone.
\<close>

theorem no_hidden_state_deterministic:
  assumes "rel_sum (=)
             (\<lambda>c1 c2. \<forall>username password. BasicAuth r = Some (username, password) \<longrightarrow>
                FindUsers c1 (Context r) username = FindUsers c2 (Context r) username)
             (g1 (GatewaySvc (cap_conf cap))) (g2 (GatewaySvc (cap_conf cap)))"
    and "\<forall>domain. IsProviderAllowed a1 (Context r) domain = IsProviderAllowed a2 (Context r) domain"
    and "env1 = env\<lparr>GetGatewayServiceClient := g1\<rparr>"
    and "env2 = env\<lparr>GetGatewayServiceClient := g2\<rparr>"
    and "cap1 = cap\<lparr>cap_authorizer := a1\<rparr>"
    and "cap2 = cap\<lparr>cap_authorizer := a2\<rparr>"
  shows "after_requests env1 cap1 before1 = cap1 \<and>
         after_requests env2 cap2 before2 = cap2 \<and>
         fst (handler_closure env1 (after_requests env1 cap1 before1) w r) =
         fst (handler_closure env2 (after_requests env2 cap2 before2) w r) \<and>
         (cap_err cap = None \<longrightarrow>
            fst (handler_closure env1 (after_requests env1 cap1 before1) w r) =
            handler env1 (cap_conf cap) a1 (cap_next cap) w r)"
proof -
  have "fst (handler_closure env1 cap1 w r) = fst (handler_closure env2 cap2 w r)"
    unfolding assms(3-6)
    using assms(1) assms(2)
    by (rule handler_closure_same_responses
          [where ?g1.0 = g1 and ?g2.0 = g2 and cap = cap and ?a1.0 = a1 and ?a2.0 = a2])
  moreover have "cap_err cap = None \<longrightarrow>
      fst (handler_closure env1 cap1 w r) = handler env1 (cap_conf cap) a1 (cap_next cap) w r"
    using handler_closure_handler [of cap1 env1 w r] by (simp add: assms(5))
  ultimately show ?thesis by (simp add: after_requests_frame)
qed

theorem no_hidden_state_deterministic_witness:
  "FindUsers demo_client () ''alice'' = FindUsers other_client () ''alice'' \<and>
   FindUsers demo_client () ''bob'' \<noteq> FindUsers other_client () ''bob'' \<and>
   after_requests (demo_env\<lparr>GetGatewayServiceClient := (\<lambda>a. Inr demo_client)\<rparr>) demo_captured
       [([], demo_request ''/ocm/shares'' (Some (''mallory'', ''secret''))),
        ([], demo_request ''/ocm/shares'' (Some (''bob'', ''secret'')))] = demo_captured \<and>
   fst (handler_closure (demo_env\<lparr>GetGatewayServiceClient := (\<lambda>a. Inr demo_client)\<rparr>)
         (after_requests (demo_env\<lparr>GetGatewayServiceClient := (\<lambda>a. Inr demo_client)\<rparr>) demo_captured
            [([], demo_request ''/ocm/shares'' (Some (''mallory'', ''secret''))),
             ([], demo_request ''/ocm/shares'' (Some (''bob'', ''secret'')))])
         [] (demo_request ''/ocm/shares'' (Some (''alice'', ''secret'')))) =
   fst (handler_closure (demo_env\<lparr>GetGatewayServiceClient := (\<lambda>a. Inr other_client)\<rparr>)
         (after_requests (demo_env\<lparr>GetGatewayServiceClient := (\<lambda>a. Inr other_client)\<rparr>) demo_captured
            [([], demo_request ''/status'' None)])
         [] (demo_request ''/ocm/shares'' (Some (''alice'', ''secret'')))) \<and>
   writer (fst (handler_closure (demo_env\<lparr>GetGatewayServiceClient := (\<lambda>a. Inr demo_client)\<rparr>)
         (after_requests (demo_env\<lparr>GetGatewayServiceClient := (\<lambda>a. Inr demo_client)\<rparr>) demo_captured
            [([], demo_request ''/ocm/shares'' (Some (''mallory'', ''secret''))),
             ([], demo_request ''/ocm/shares'' (Some (''bob'', ''secret'')))])
         [] (demo_request ''/ocm/shares'' (Some (''alice'', ''secret''))))) = [200]"
proof -
  let ?r = "demo_request ''/ocm/shares'' (Some (''alice'', ''secret''))"
  let ?g1 = "\<lambda>a::string. (Inr demo_client :: error + unit gateway_client)"
  let ?g2 = "\<lambda>a::string. (Inr other_client :: error + unit gateway_client)"
  have c: "rel_sum (=)
             (\<lambda>c1 c2. \<forall>username password. BasicAuth ?r = Some (username, password) \<longrightarrow>
                FindUsers c1 (Context ?r) username = FindUsers c2 (Context ?r) username)
             (?g1 (GatewaySvc (cap_conf demo_captured)))
             (?g2 (GatewaySvc (cap_conf demo_captured)))"
    by (simp add: demo_defs)
  have d: "\<forall>domain. IsProviderAllowed demo_authorizer (Context ?r) domain =
                     IsProviderAllowed demo_authorizer (Context ?r) domain"
    by simp
  have k: "demo_captured = demo_captured\<lparr>cap_authorizer := demo_authorizer\<rparr>"
    by (simp add: demo_captured_def)
  have z: "cap_err demo_captured = None"
    by (simp add: demo_captured_def)
  have e: "FindUsers demo_client () ''alice'' = FindUsers other_client () ''alice''"
    by (simp add: demo_defs)
  have n: "FindUsers demo_client () ''bob'' \<noteq> FindUsers other_client () ''bob''"
    by (simp add: demo_defs)
  have v: "writer (handler (demo_env\<lparr>GetGatewayServiceClient := ?g1\<rparr>)
             (cap_conf demo_captured) demo_authorizer (cap_next demo_captured) [] ?r) = [200]"
    by (simp add: handler_def demo_defs demo_captured_def Let_def Split_def)
  note t = no_hidden_state_deterministic
      [where r = "?r" and ?g1.0 = "?g1" and ?g2.0 = "?g2" and cap = demo_captured
        and ?a1.0 = demo_authorizer and ?a2.0 = demo_authorizer
        and env = demo_env and ?env1.0 = "demo_env\<lparr>GetGatewayServiceClient := ?g1\<rparr>"
        and ?env2.0 = "demo_env\<lparr>GetGatewayServiceClient := ?g2\<rparr>"
        and ?cap1.0 = demo_captured and ?cap2.0 = demo_captured and w = "[]"
        and ?before1.0 = "[([], demo_request ''/ocm/shares'' (Some (''mallory'', ''secret''))),
                     ([], demo_request ''/ocm/shares'' (Some (''bob'', ''secret'')))]"
        and ?before2.0 = "[([], demo_request ''/status'' None)]",
       OF c d refl refl k k]
  from t z e n v show ?thesis by (auto simp del: after_requests.simps)
qed

subsection \<open>Construction\<close>

text \<open>
  Claim C8. Let the raw configuration decode, and let \<open>conf\<close> be the decoded
  configuration with its defaults filled in. When \<^verbatim>\<open>registry.NewFuncs\<close> has no factory for
  the selected driver name, \<^verbatim>\<open>New\<close> returns an error and no middleware. When it has one,
  \<^verbatim>\<open>New\<close> applies it to the settings bag stored under that name: if the factory returns an
  authorizer, the middleware is the handler closed over exactly that authorizer (with the
  fixed priority); if the factory fails, \<^verbatim>\<open>New\<close> returns its error.
\<close>

theorem new_driver_lookup:
  assumes "Decode env m = Inr decoded"
    and "conf = decoded\<lparr>GatewaySvc := GetGatewaySVC env (GatewaySvc decoded),
                         OCMPrefix := (if OCMPrefix decoded = [] then ''ocm'' else OCMPrefix decoded)\<rparr>"
  shows "(NewFuncs env (Driver decoded) = None \<longrightarrow> (\<exists>err. New env m = Inl err)) \<and>
         (\<forall>f bag. NewFuncs env (Driver decoded) = Some f \<longrightarrow>
            Drivers decoded (Driver decoded) = Some bag \<longrightarrow>
            (\<forall>authorizer. f bag = Inr authorizer \<longrightarrow>
               New env m = Inr (handler env conf authorizer, defaultPriority)) \<and>
            (\<forall>err. f bag = Inl err \<longrightarrow> New env m = Inl err)) \<and>
         (\<forall>f. NewFuncs env (Driver decoded) = Some f \<longrightarrow>
            Drivers decoded (Driver decoded) = None \<longrightarrow>
            (\<forall>authorizer. f None = Inr authorizer \<longrightarrow>
               New env m = Inr (handler env conf authorizer, defaultPriority)) \<and>
            (\<forall>err. f None = Inl err \<longrightarrow> New env m = Inl err))"
  using assms by (auto simp add: New_def getDriver_def index_settings_def Let_def)

theorem new_driver_lookup_witness:
  "NewFuncs demo_env ''demo'' = Some list_factory \<and>
   Drivers (demo_decoded ''demo'') ''demo'' = Some (Some [''domain'' \<mapsto> ''example.org'']) \<and>
   list_factory (Some [''domain'' \<mapsto> ''example.org'']) = Inr (allow_only ''example.org'') \<and>
   list_factory None = Inl (Error ''no settings'') \<and>
   New demo_env (Some [''driver'' \<mapsto> ''demo'']) =
     Inr (handler demo_env (demo_built ''demo'') (allow_only ''example.org''), 200) \<and>
   NewFuncs demo_env ''open'' = Some open_factory \<and>
   Drivers (demo_decoded ''open'') ''open'' = None \<and>
   open_factory None = Inr open_authorizer \<and>
   New demo_env (Some [''driver'' \<mapsto> ''open'']) =
     Inr (handler demo_env (demo_built ''open'') open_authorizer, 200) \<and>
   NewFuncs demo_env ''nosuch'' = None \<and>
   (\<exists>err. New demo_env (Some [''driver'' \<mapsto> ''nosuch'']) = Inl err)"
proof -
  have d1: "Decode demo_env (Some [''driver'' \<mapsto> ''demo'']) = Inr (demo_decoded ''demo'')"
    by (simp add: demo_env_def)
  have d2: "Decode demo_env (Some [''driver'' \<mapsto> ''open'']) = Inr (demo_decoded ''open'')"
    by (simp add: demo_env_def)
  have d3: "Decode demo_env (Some [''driver'' \<mapsto> ''nosuch'']) = Inr (demo_decoded ''nosuch'')"
    by (simp add: demo_env_def)
  have c: "demo_built d =
            (demo_decoded d)
              \<lparr>GatewaySvc := GetGatewaySVC demo_env (GatewaySvc (demo_decoded d)),
               OCMPrefix := (if OCMPrefix (demo_decoded d) = [] then ''ocm''
                             else OCMPrefix (demo_decoded d))\<rparr>" for d
    by (simp add: demo_built_def demo_decoded_def demo_env_def)
  have n1: "NewFuncs demo_env (Driver (demo_decoded ''demo'')) = Some list_factory"
    by (simp add: demo_env_def demo_decoded_def)
  have n2: "NewFuncs demo_env (Driver (demo_decoded ''open'')) = Some open_factory"
    by (simp add: demo_env_def demo_decoded_def)
  have n3: "NewFuncs demo_env (Driver (demo_decoded ''nosuch'')) = None"
    by (simp add: demo_env_def demo_decoded_def)
  have b1: "Drivers (demo_decoded ''demo'') (Driver (demo_decoded ''demo'')) =
              Some (Some [''domain'' \<mapsto> ''example.org''])"
    by (simp add: demo_decoded_def demo_drivers_def)
  have b2: "Drivers (demo_decoded ''open'') (Driver (demo_decoded ''open'')) = None"
    by (simp add: demo_decoded_def demo_drivers_def)
  have f1: "list_factory (Some [''domain'' \<mapsto> ''example.org'']) = Inr (allow_only ''example.org'')"
    by (simp add: list_factory_def)
  have f1': "list_factory None = Inl (Error ''no settings'')"
    by (simp add: list_factory_def)
  have f2: "open_factory None = Inr open_authorizer"
    by (simp add: open_factory_def)
  from new_driver_lookup [OF d1 c] n1 b1 f1
  have r1: "New demo_env (Some [''driver'' \<mapsto> ''demo'']) =
     Inr (handler demo_env (demo_built ''demo'') (allow_only ''example.org''), 200)"
    by (simp add: defaultPriority_def)
  from new_driver_lookup [OF d2 c] n2 b2 f2
  have r2: "New demo_env (Some [''driver'' \<mapsto> ''open'']) =
     Inr (handler demo_env (demo_built ''open'') open_authorizer, 200)"
    by (simp add: defaultPriority_def)
  from new_driver_lookup [OF d3 c] n3
  have r3: "\<exists>err. New demo_env (Some [''driver'' \<mapsto> ''nosuch'']) = Inl err"
    by simp
  from n1 n2 n3 b1 b2 f1 f1' f2 r1 r2 r3 show ?thesis
    by (simp add: demo_decoded_def)
qed

end
